theory Spec2Isabelle
  imports Complex_Main "HOL-Library.Word"
begin

unbundle bit_operations_syntax

section \<open>The behavioural authentication engine (enhanced\_faiss\_engine.py)\<close>

text \<open>
  A shallow embedding of \<^verbatim>\<open>EnhancedFAISSEngine\<close>. Vectors (\<^verbatim>\<open>np.ndarray\<close>) are lists of
  reals, so the arithmetic below is exact: rounding of IEEE doubles is outside this
  development. Strings are byte lists; a Python \<^verbatim>\<open>str\<close> is represented by its UTF-8 bytes.
  Every call to the repository (Supabase) is an entry of a request log, and its answer is
  an argument of the function that makes the call.
\<close>

subsection \<open>MD5 (RFC 1321), as computed by \<^verbatim>\<open>hashlib.md5(...).hexdigest()\<close>\<close>

definition md5_s :: "nat list" where
  "md5_s = [7, 12, 17, 22, 7, 12, 17, 22, 7, 12, 17, 22, 7, 12, 17, 22,
            5, 9, 14, 20, 5, 9, 14, 20, 5, 9, 14, 20, 5, 9, 14, 20,
            4, 11, 16, 23, 4, 11, 16, 23, 4, 11, 16, 23, 4, 11, 16, 23,
            6, 10, 15, 21, 6, 10, 15, 21, 6, 10, 15, 21, 6, 10, 15, 21]"

definition md5_K :: "32 word list" where
  "md5_K = [0xd76aa478, 0xe8c7b756, 0x242070db, 0xc1bdceee,
            0xf57c0faf, 0x4787c62a, 0xa8304613, 0xfd469501,
            0x698098d8, 0x8b44f7af, 0xffff5bb1, 0x895cd7be,
            0x6b901122, 0xfd987193, 0xa679438e, 0x49b40821,
            0xf61e2562, 0xc040b340, 0x265e5a51, 0xe9b6c7aa,
            0xd62f105d, 0x02441453, 0xd8a1e681, 0xe7d3fbc8,
            0x21e1cde6, 0xc33707d6, 0xf4d50d87, 0x455a14ed,
            0xa9e3e905, 0xfcefa3f8, 0x676f02d9, 0x8d2a4c8a,
            0xfffa3942, 0x8771f681, 0x6d9d6122, 0xfde5380c,
            0xa4beea44, 0x4bdecfa9, 0xf6bb4b60, 0xbebfbc70,
            0x289b7ec6, 0xeaa127fa, 0xd4ef3085, 0x04881d05,
            0xd9d4d039, 0xe6db99e5, 0x1fa27cf8, 0xc4ac5665,
            0xf4292244, 0x432aff97, 0xab9423a7, 0xfc93a039,
            0x655b59c3, 0x8f0ccc92, 0xffeff47d, 0x85845dd1,
            0x6fa87e4f, 0xfe2ce6e0, 0xa3014314, 0x4e0811a1,
            0xf7537e82, 0xbd3af235, 0x2ad7d2bb, 0xeb86d391]"

type_synonym md5_state = "32 word \<times> 32 word \<times> 32 word \<times> 32 word"

definition md5_init :: md5_state where
  "md5_init = (0x67452301, 0xefcdab89, 0x98badcfe, 0x10325476)"

definition md5_pad :: "8 word list \<Rightarrow> 8 word list" where
  "md5_pad msg =
     (let n = length msg;
          zeros = (119 - n mod 64) mod 64;
          bits = (word_of_nat (8 * n) :: 64 word)
      in msg @ [0x80] @ replicate zeros 0 @ map (\<lambda>i. ucast (drop_bit (8 * i) bits)) [0..<8])"

definition le_word32 :: "8 word list \<Rightarrow> 32 word" where
  "le_word32 bs = foldr (\<lambda>b acc. ucast b OR push_bit 8 acc) bs 0"

fun chunks_of :: "nat \<Rightarrow> 'a list \<Rightarrow> 'a list list" where
  "chunks_of n [] = []"
| "chunks_of n (x # xs) =
     (if n = 0 then [] else take n (x # xs) # chunks_of n (drop n (x # xs)))"

definition md5_round :: "32 word list \<Rightarrow> md5_state \<Rightarrow> nat \<Rightarrow> md5_state" where
  "md5_round M st i =
     (case st of (A, B, C, D) \<Rightarrow>
        let (F, g) =
              (if i < 16 then ((B AND C) OR (NOT B AND D), i)
               else if i < 32 then ((D AND B) OR (NOT D AND C), (5 * i + 1) mod 16)
               else if i < 48 then (B XOR C XOR D, (3 * i + 5) mod 16)
               else (C XOR (B OR NOT D), (7 * i) mod 16));
            F' = F + A + md5_K ! i + M ! g
        in (D, B + word_rotl (md5_s ! i) F', B, C))"

definition md5_chunk :: "md5_state \<Rightarrow> 8 word list \<Rightarrow> md5_state" where
  "md5_chunk st chunk =
     (let M = map le_word32 (chunks_of 4 chunk)
      in case (st, foldl (md5_round M) st [0..<64]) of
           ((a0, b0, c0, d0), (A, B, C, D)) \<Rightarrow> (a0 + A, b0 + B, c0 + C, d0 + D))"

definition md5_digest :: "8 word list \<Rightarrow> 8 word list" where
  "md5_digest msg =
     (case foldl md5_chunk md5_init (chunks_of 64 (md5_pad msg)) of
        (a, b, c, d) \<Rightarrow>
          concat (map (\<lambda>w. map (\<lambda>i. ucast (drop_bit (8 * i) w)) [0..<4]) [a, b, c, d]))"

definition hex_digit :: "nat \<Rightarrow> char" where
  "hex_digit n = ''0123456789abcdef'' ! (n mod 16)"

definition hex_byte :: "8 word \<Rightarrow> string" where
  "hex_byte b = [hex_digit (unat b div 16), hex_digit (unat b mod 16)]"

definition md5_hexdigest :: "string \<Rightarrow> string" where
  "md5_hexdigest s = concat (map hex_byte (md5_digest (map (\<lambda>c. of_char c) s)))"


subsection \<open>UserIdMapper: \<^verbatim>\<open>_generate_uuid_from_string\<close>\<close>

text \<open>\<^verbatim>\<open>xs[i:j]\<close> for \<open>0 \<le> i \<le> j\<close>.\<close>

definition py_slice :: "nat \<Rightarrow> nat \<Rightarrow> 'a list \<Rightarrow> 'a list" where
  "py_slice i j xs = take (j - i) (drop i xs)"

definition generate_uuid_from_string :: "string \<Rightarrow> string" where
  "generate_uuid_from_string input_str =
     (let hex_dig = md5_hexdigest input_str
      in py_slice 0 8 hex_dig @ ''-'' @ py_slice 8 12 hex_dig @ ''-'' @ py_slice 12 16 hex_dig
         @ ''-'' @ py_slice 16 20 hex_dig @ ''-'' @ py_slice 20 32 hex_dig)"

definition is_hex_char :: "char \<Rightarrow> bool" where
  "is_hex_char c = (c \<in> set ''0123456789abcdef'')"

fun split_dash :: "string \<Rightarrow> string list" where
  "split_dash [] = [[]]"
| "split_dash (c # cs) =
     (if c = CHR ''-'' then [] # split_dash cs
      else (case split_dash cs of [] \<Rightarrow> [[c]] | g # gs \<Rightarrow> (c # g) # gs))"

definition canonical_uuid :: "string \<Rightarrow> bool" where
  "canonical_uuid u =
     (map length (split_dash u) = [8, 4, 4, 4, 12] \<and> list_all is_hex_char (concat (split_dash u)))"


subsection \<open>Python values: exceptions, formatting, substring test\<close>

datatype py_error =
    ValueError string
  | TypeError string
  | ZeroDivisionError string
  | AssertionError string
  | ExternalError string

text \<open>\<^verbatim>\<open>str(e)\<close>.\<close>

fun str_of_error :: "py_error \<Rightarrow> string" where
  "str_of_error (ValueError m) = m"
| "str_of_error (TypeError m) = m"
| "str_of_error (ZeroDivisionError m) = m"
| "str_of_error (AssertionError m) = m"
| "str_of_error (ExternalError m) = m"

definition dec_digit :: "nat \<Rightarrow> char" where
  "dec_digit n = ''0123456789'' ! (n mod 10)"

fun str_nat :: "nat \<Rightarrow> string" where
  "str_nat n = (if n < 10 then [dec_digit n] else str_nat (n div 10) @ [dec_digit n])"

declare str_nat.simps [simp del]

definition str_int :: "int \<Rightarrow> string" where
  "str_int i = (if i < 0 then CHR ''-'' # str_nat (nat (- i)) else str_nat (nat i))"

text \<open>\<^verbatim>\<open>sub in s\<close> on strings.\<close>

fun py_in :: "string \<Rightarrow> string \<Rightarrow> bool" where
  "py_in sub [] = (sub = [])"
| "py_in sub (c # cs) = (take (length sub) (c # cs) = sub \<or> py_in sub cs)"

subsection \<open>VectorOps: the numpy primitives and \<^verbatim>\<open>_normalize_vector\<close>,
  \<^verbatim>\<open>_calculate_cosine_similarity\<close>, \<^verbatim>\<open>_calculate_vector_stats\<close>\<close>

text \<open>\<^verbatim>\<open>np.linalg.norm\<close> of a one-dimensional array.\<close>

definition np_norm :: "real list \<Rightarrow> real" where
  "np_norm v = sqrt (sum_list (map (\<lambda>x. x * x) v))"

text \<open>\<^verbatim>\<open>a * v\<close> for a scalar \<open>a\<close>.\<close>

definition np_scale :: "real \<Rightarrow> real list \<Rightarrow> real list" where
  "np_scale a v = map (\<lambda>x. a * x) v"

text \<open>
  \<^verbatim>\<open>a + b\<close> on one-dimensional arrays: element by element, an array of length one is
  broadcast, any other pair of different lengths raises \<^verbatim>\<open>ValueError\<close>.
\<close>

definition np_add :: "real list \<Rightarrow> real list \<Rightarrow> py_error + real list" where
  "np_add a b =
     (if length a = length b then Inr (map2 (+) a b)
      else if length a = 1 then Inr (map (\<lambda>y. hd a + y) b)
      else if length b = 1 then Inr (map (\<lambda>x. x + hd b) a)
      else Inl (ValueError ''operands could not be broadcast together''))"

text \<open>\<^verbatim>\<open>np.dot\<close> on one-dimensional arrays: lengths must agree.\<close>

definition np_dot :: "real list \<Rightarrow> real list \<Rightarrow> py_error + real" where
  "np_dot a b =
     (if length a = length b then Inr (sum_list (map2 (*) a b))
      else Inl (ValueError ''shapes not aligned''))"

text \<open>\<^verbatim>\<open>np.clip(x, lo, hi)\<close>, which is \<^verbatim>\<open>minimum(hi, maximum(x, lo))\<close>.\<close>

definition np_clip :: "real \<Rightarrow> real \<Rightarrow> real \<Rightarrow> real" where
  "np_clip x lo hi = min hi (max x lo)"

definition normalize_vector :: "real list \<Rightarrow> real list" where
  "normalize_vector v = (let norm = np_norm v in if norm = 0 then v else map (\<lambda>x. x / norm) v)"

text \<open>Any exception inside the \<^verbatim>\<open>try\<close> makes the similarity \<open>0.0\<close>.\<close>

definition calculate_cosine_similarity :: "real list \<Rightarrow> real list \<Rightarrow> real" where
  "calculate_cosine_similarity vector1 vector2 =
     (let v1_norm = normalize_vector vector1;
          v2_norm = normalize_vector vector2
      in case np_dot v1_norm v2_norm of
           Inr similarity \<Rightarrow> np_clip similarity (- 1) 1
         | Inl e \<Rightarrow> 0)"

record stats =
  vs_length :: nat
  vs_non_zero_count :: nat
  vs_zero_count :: nat
  vs_non_zero_percentage :: real
  vs_mean :: real
  vs_std :: real
  vs_min :: real
  vs_max :: real
  vs_is_meaningful :: bool

definition np_mean :: "real list \<Rightarrow> real" where
  "np_mean v = sum_list v / real (length v)"

text \<open>
  On an empty array the division by \<^verbatim>\<open>len(vector_array)\<close> raises; otherwise every entry
  of the dictionary is defined.
\<close>

definition calculate_vector_stats :: "real list \<Rightarrow> py_error + stats" where
  "calculate_vector_stats v =
     (let non_zero_count = length (filter (\<lambda>x. x \<noteq> 0) v);
          zero_count = length v - non_zero_count
      in if length v = 0 then Inl (ZeroDivisionError ''division by zero'')
         else Inr \<lparr> vs_length = length v,
                    vs_non_zero_count = non_zero_count,
                    vs_zero_count = zero_count,
                    vs_non_zero_percentage = real non_zero_count / real (length v) * 100,
                    vs_mean = np_mean v,
                    vs_std = sqrt (np_mean (map (\<lambda>x. (x - np_mean v) * (x - np_mean v)) v)),
                    vs_min = fold min (tl v) (hd v),
                    vs_max = fold max (tl v) (hd v),
                    vs_is_meaningful = (real non_zero_count > real (length v) * 0.1) \<rparr>)"

subsection \<open>The FAISS flat index\<close>

text \<open>
  \<^verbatim>\<open>faiss.IndexFlatL2\<close> and \<^verbatim>\<open>faiss.IndexFlatIP\<close>: the vectors in insertion order. \<^verbatim>\<open>add\<close>
  and \<^verbatim>\<open>search\<close> assert that the row has the dimension of the index. \<^verbatim>\<open>search\<close> returns
  the \<open>k\<close> best rows (smallest squared distance, or largest inner product) with their
  positions, and pads with position \<open>-1\<close> when the index holds fewer than \<open>k\<close> rows.
\<close>

datatype metric = L2 | IP

record faiss_index =
  index_d :: nat
  index_metric :: metric
  index_rows :: "real list list"

definition ntotal :: "faiss_index \<Rightarrow> nat" where
  "ntotal idx = length (index_rows idx)"

definition faiss_add :: "faiss_index \<Rightarrow> real list \<Rightarrow> py_error + faiss_index" where
  "faiss_add idx v =
     (if length v = index_d idx then Inr (idx\<lparr>index_rows := index_rows idx @ [v]\<rparr>)
      else Inl (AssertionError []))"

definition faiss_score :: "metric \<Rightarrow> real list \<Rightarrow> real list \<Rightarrow> real" where
  "faiss_score m q x =
     (case m of
        L2 \<Rightarrow> sum_list (map2 (\<lambda>a b. (a - b) * (a - b)) q x)
      | IP \<Rightarrow> sum_list (map2 (*) q x))"

definition faiss_search :: "faiss_index \<Rightarrow> real list \<Rightarrow> nat \<Rightarrow> py_error + (real \<times> int) list" where
  "faiss_search idx q k =
     (if length q \<noteq> index_d idx then Inl (AssertionError [])
      else
        let scored = zip (map (faiss_score (index_metric idx) q) (index_rows idx))
                         (map int [0..<ntotal idx]);
            ranked = (case index_metric idx of
                        L2 \<Rightarrow> sort_key fst scored
                      | IP \<Rightarrow> sort_key (\<lambda>h. - fst h) scored)
        in Inr (take k ranked @ replicate (k - length ranked) (0, - 1)))"

subsection \<open>Data model\<close>

datatype VectorType = SESSION | CUMULATIVE | BASELINE

record similar_vector =
  sv_similarity :: real
  sv_index :: int
  sv_type :: string

record VectorAnalysisResult =
  similarity_score :: real
  confidence :: real
  decision :: string
  risk_level :: string
  risk_factors :: "string list"
  similar_vectors :: "similar_vector list"
  vector_id :: "string option"
  session_vector :: "real list option"
  vector_stats :: "stats option"

record UserVectorProfile =
  user_id :: string
  cumulative_vector :: "real list"
  baseline_vector :: "real list option"
  session_vectors :: "real list list"
  vector_count :: int
  last_updated :: nat
  learning_phase :: string

subsection \<open>The repository\<close>

text \<open>
  A row written to \<^verbatim>\<open>enhanced_behavioral_vectors\<close> (its free-form \<^verbatim>\<open>metadata\<close> entry is left
  out), the requests the engine sends, and the two possible outcomes of a request.
\<close>

record vector_data =
  vd_user_id :: string
  vd_session_id :: string
  vd_vector_data :: "real list"
  vd_vector_type :: VectorType
  vd_confidence_score :: real
  vd_feature_source :: string

datatype db_request =
    InsertVector vector_data
  | InsertUserProfile string string
  | SelectLatestVector string VectorType
  | SelectSessionVector string
  | GetUserProfile string
  | SelectUserProfiles string
  | UpdateUserPhase string string

datatype 'a db_reply = Raised string | Returned 'a

text \<open>The most recent cumulative row of a user, as far as the engine reads it.\<close>

record cumulative_row =
  cr_vector_data :: "real list"
  cr_vector_count :: "int option"
  cr_created_at :: nat

text \<open>A row of \<^verbatim>\<open>user_profiles\<close>; \<^verbatim>\<open>current_phase\<close> may be missing.\<close>

record user_row =
  ur_current_phase :: "string option"

subsection \<open>The engine\<close>

record engine =
  vector_dimension :: nat
  session_index :: faiss_index
  cumulative_index :: faiss_index
  baseline_index :: faiss_index
  user_profiles :: "string \<rightharpoonup> UserVectorProfile"
  db_requests :: "db_request list"

definition similarity_thresholds :: "(string \<times> real) list" where
  "similarity_thresholds = [(''learning'', 0.3), (''gradual_risk'', 0.6), (''full_auth'', 0.8)]"

text \<open>The dictionary is only read at its three literal keys.\<close>

definition threshold :: "string \<Rightarrow> real" where
  "threshold k = (case map_of similarity_thresholds k of Some t \<Rightarrow> t | None \<Rightarrow> 0)"

text \<open>
  \<^verbatim>\<open>__init__\<close>: three empty L2 indices and an empty profile cache. (\<^verbatim>\<open>initialize\<close>, which
  replaces them by inner-product indices filled from the repository, is not needed below;
  the metric is a field of the index, so nothing here depends on which one is in use.)
\<close>

definition init_engine :: "nat \<Rightarrow> engine" where
  "init_engine d =
     \<lparr> vector_dimension = d,
       session_index = \<lparr>index_d = d, index_metric = L2, index_rows = []\<rparr>,
       cumulative_index = \<lparr>index_d = d, index_metric = L2, index_rows = []\<rparr>,
       baseline_index = \<lparr>index_d = d, index_metric = L2, index_rows = []\<rparr>,
       user_profiles = Map.empty,
       db_requests = [] \<rparr>"

definition send :: "db_request \<Rightarrow> engine \<Rightarrow> engine" where
  "send rq eng = eng\<lparr>db_requests := db_requests eng @ [rq]\<rparr>"

definition put_profile :: "string \<Rightarrow> UserVectorProfile \<Rightarrow> engine \<Rightarrow> engine" where
  "put_profile uid p eng = eng\<lparr>user_profiles := (user_profiles eng)(uid \<mapsto> p)\<rparr>"


subsection \<open>Cumulative update: \<^verbatim>\<open>_update_cumulative_vector\<close>\<close>

definition alpha :: real where
  "alpha = 0.1"

text \<open>
  The new cumulative vector before normalisation; the weighted sum raises when the two
  arrays cannot be added.
\<close>

definition blend :: "UserVectorProfile \<Rightarrow> real list \<Rightarrow> py_error + real list" where
  "blend p sv =
     (if vector_count p = 0 then Inr sv
      else np_add (np_scale (1 - alpha) (cumulative_vector p)) (np_scale alpha sv))"

text \<open>
  The handler of the outer \<^verbatim>\<open>try\<close> ("emergency fallback"): it repeats the update of the
  cached profile, without the timestamp, the repository and the index, and swallows
  every exception of its own.
\<close>

definition emergency_fallback :: "engine \<Rightarrow> string \<Rightarrow> real list \<Rightarrow> string \<Rightarrow> engine" where
  "emergency_fallback eng uid sv dec =
     (case user_profiles eng uid of
        None \<Rightarrow> eng
      | Some p \<Rightarrow>
          if dec \<noteq> ''block'' then
            (case blend p sv of
               Inl e \<Rightarrow> eng
             | Inr raw \<Rightarrow>
                 put_profile uid
                   (p\<lparr>cumulative_vector := normalize_vector raw,
                      vector_count := vector_count p + 1\<rparr>) eng)
          else eng)"

text \<open>
  The handler of the inner \<^verbatim>\<open>try\<close>: the index is updated whatever the repository said;
  an exception of \<^verbatim>\<open>add\<close> here reaches the outer handler.
\<close>

definition add_after_db_error :: "engine \<Rightarrow> string \<Rightarrow> real list \<Rightarrow> string \<Rightarrow> real list \<Rightarrow> engine" where
  "add_after_db_error eng uid sv dec new_cumulative =
     (case faiss_add (cumulative_index eng) new_cumulative of
        Inr idx \<Rightarrow> eng\<lparr>cumulative_index := idx\<rparr>
      | Inl e \<Rightarrow> emergency_fallback eng uid sv dec)"

text \<open>
  The reply is that of the insert: \<open>Returned b\<close> with \<open>b\<close> the truth value of
  \<^verbatim>\<open>result.data\<close>, or \<open>Raised msg\<close>.
\<close>

definition update_cumulative_vector ::
  "bool db_reply \<Rightarrow> nat \<Rightarrow> engine \<Rightarrow> string \<Rightarrow> real list \<Rightarrow> string \<Rightarrow> engine" where
  "update_cumulative_vector reply now eng uid sv dec =
     (if dec = ''block'' then eng
      else case user_profiles eng uid of
        None \<Rightarrow> eng
      | Some p \<Rightarrow>
          (case blend p sv of
             Inl e \<Rightarrow> emergency_fallback eng uid sv dec
           | Inr raw \<Rightarrow>
               let user_uuid = generate_uuid_from_string uid;
                   new_cumulative = normalize_vector raw;
                   p' = p\<lparr>cumulative_vector := new_cumulative,
                          vector_count := vector_count p + 1,
                          last_updated := now\<rparr>;
                   eng1 = put_profile uid p' eng;
                   row = \<lparr> vd_user_id = user_uuid,
                           vd_session_id = ''cumulative_'' @ str_int (vector_count p'),
                           vd_vector_data = new_cumulative,
                           vd_vector_type = CUMULATIVE,
                           vd_confidence_score = 0.9,
                           vd_feature_source = ''cumulative_learning'' \<rparr>;
                   eng2 = send (InsertVector row) eng1
               in case reply of
                    Returned has_data \<Rightarrow>
                      if has_data then
                        (case faiss_add (cumulative_index eng2) new_cumulative of
                           Inr idx \<Rightarrow> eng2\<lparr>cumulative_index := idx\<rparr>
                         | Inl e \<Rightarrow> add_after_db_error eng2 uid sv dec new_cumulative)
                      else eng2
                  | Raised msg \<Rightarrow> add_after_db_error eng2 uid sv dec new_cumulative))"

subsection \<open>Baseline creation: \<^verbatim>\<open>_create_baseline_vector\<close>\<close>

text \<open>
  The profile argument is the cached object; the function returns it as it leaves it, and
  the caller stores it back under the same key. The timestamp in the session id is
  printed as a number.
\<close>

definition create_baseline_vector ::
  "unit db_reply \<Rightarrow> nat \<Rightarrow> engine \<Rightarrow> string \<Rightarrow> UserVectorProfile \<Rightarrow> UserVectorProfile \<times> engine" where
  "create_baseline_vector reply now eng uid p =
     (if vector_count p < 10 then (p, eng)
      else
        let baseline = cumulative_vector p;
            row = \<lparr> vd_user_id = uid,
                    vd_session_id = ''baseline_'' @ str_nat now,
                    vd_vector_data = baseline,
                    vd_vector_type = BASELINE,
                    vd_confidence_score = 0.95,
                    vd_feature_source = ''baseline_creation'' \<rparr>;
            eng1 = send (InsertVector row) eng
        in case reply of
             Raised msg \<Rightarrow> (p, eng1)
           | Returned u \<Rightarrow>
               let p' = p\<lparr>baseline_vector := Some baseline\<rparr>
               in case faiss_add (baseline_index eng1) baseline of
                    Inr idx \<Rightarrow> (p', eng1\<lparr>baseline_index := idx\<rparr>)
                  | Inl e \<Rightarrow> (p', eng1))"

subsection \<open>DecisionEngine: \<^verbatim>\<open>_find_similar_vectors\<close> and the three phase policies\<close>

definition find_similar_vectors :: "engine \<Rightarrow> string \<Rightarrow> real list \<Rightarrow> nat \<Rightarrow> similar_vector list" where
  "find_similar_vectors eng uid query_vector k =
     (if ntotal (cumulative_index eng) > 0 then
        (case faiss_search (cumulative_index eng) (normalize_vector query_vector)
                (min k (ntotal (cumulative_index eng))) of
           Inl e \<Rightarrow> []
         | Inr hits \<Rightarrow>
             take k (map (\<lambda>h. \<lparr>sv_similarity = fst h, sv_index = snd h, sv_type = ''cumulative''\<rparr>)
                       (filter (\<lambda>h. snd h \<noteq> - 1) hits)))
      else [])"

text \<open>
  A profile always carries a cumulative array, so the test
  \<^verbatim>\<open>user_profile.cumulative_vector is not None\<close> is true and only the count decides.
\<close>

definition analyze_learning_phase ::
  "engine \<Rightarrow> string \<Rightarrow> real list \<Rightarrow> UserVectorProfile \<Rightarrow> VectorAnalysisResult" where
  "analyze_learning_phase eng uid sv p =
     (if vector_count p > 0 then
        \<lparr> similarity_score = calculate_cosine_similarity sv (cumulative_vector p),
          confidence = min 0.8 (real_of_int (vector_count p) / 5.0),
          decision = ''learn'',
          risk_level = ''low'',
          risk_factors = [''Learning phase - collecting behavioral data'',
                          ''Compared with '' @ str_int (vector_count p) @ '' previous sessions''],
          similar_vectors = take 3 (find_similar_vectors eng uid sv 5),
          vector_id = None, session_vector = None, vector_stats = None \<rparr>
      else
        \<lparr> similarity_score = 0.0,
          confidence = 0.2,
          decision = ''learn'',
          risk_level = ''low'',
          risk_factors = [''First session - no baseline for comparison''],
          similar_vectors = [],
          vector_id = None, session_vector = None, vector_stats = None \<rparr>)"

definition analyze_gradual_phase ::
  "engine \<Rightarrow> string \<Rightarrow> real list \<Rightarrow> UserVectorProfile \<Rightarrow> VectorAnalysisResult" where
  "analyze_gradual_phase eng uid sv p =
     (if vector_count p < 3 then
        \<lparr> similarity_score = 0.8,
          confidence = 0.6,
          decision = ''learn'',
          risk_level = ''low'',
          risk_factors = [''Insufficient data - continue learning''],
          similar_vectors = [],
          vector_id = None, session_vector = None, vector_stats = None \<rparr>
      else
        let similarity = calculate_cosine_similarity sv (cumulative_vector p);
            t = threshold ''gradual_risk'';
            (dec, risk, factors) =
              (if similarity \<ge> t then (''allow'', ''low'', [''Vector matches user profile''])
               else if similarity \<ge> t * 0.7 then
                 (''challenge'', ''medium'', [''Moderate deviation from profile''])
               else (''block'', ''high'', [''Significant deviation from profile'']))
        in \<lparr> similarity_score = similarity,
             confidence = min 0.8 (real_of_int (vector_count p) / 10.0),
             decision = dec,
             risk_level = risk,
             risk_factors = factors,
             similar_vectors = [],
             vector_id = None, session_vector = None, vector_stats = None \<rparr>)"

text \<open>
  With no baseline after the attempt to create one, \<^verbatim>\<open>np.linalg.norm(None)\<close> raises inside
  \<^verbatim>\<open>_calculate_cosine_similarity\<close>, whose handler returns \<open>0.0\<close>.
\<close>

definition analyze_full_auth_phase ::
  "unit db_reply \<Rightarrow> nat \<Rightarrow> engine \<Rightarrow> string \<Rightarrow> real list \<Rightarrow> UserVectorProfile
     \<Rightarrow> VectorAnalysisResult \<times> UserVectorProfile \<times> engine" where
  "analyze_full_auth_phase reply now eng uid sv p =
     (let (p1, eng1) = (if baseline_vector p = None then create_baseline_vector reply now eng uid p
                        else (p, eng));
          baseline_similarity = (case baseline_vector p1 of
                                   None \<Rightarrow> 0
                                 | Some b \<Rightarrow> calculate_cosine_similarity sv b);
          cumulative_similarity = calculate_cosine_similarity sv (cumulative_vector p1);
          similarity = max baseline_similarity cumulative_similarity;
          t = threshold ''full_auth'';
          similar = find_similar_vectors eng1 uid sv 5;
          (dec, risk, factors) =
            (if similarity \<ge> t then (''allow'', ''low'', [''Strong match with user profile''])
             else if similarity \<ge> t * 0.8 then
               (''challenge'', ''medium'', [''Moderate similarity to profile''])
             else (''block'', ''high'', [''Low similarity to established profile'']))
      in (\<lparr> similarity_score = similarity,
            confidence = 0.9,
            decision = dec,
            risk_level = risk,
            risk_factors = factors,
            similar_vectors = similar,
            vector_id = None, session_vector = None, vector_stats = None \<rparr>, p1, eng1))"

subsection \<open>PhaseStateMachine: \<^verbatim>\<open>_update_user_learning_phase\<close> and
  \<^verbatim>\<open>_check_learning_phase_transition\<close>\<close>




text \<open>
  The profile of a user with no history, as \<^verbatim>\<open>_get_or_create_user_profile\<close> builds it.
\<close>

definition default_profile :: "nat \<Rightarrow> string \<Rightarrow> nat \<Rightarrow> UserVectorProfile" where
  "default_profile d uid now =
     \<lparr> user_id = uid, cumulative_vector = replicate d 0, baseline_vector = None,
       session_vectors = [], vector_count = 0, last_updated = now, learning_phase = ''learning'' \<rparr>"




text \<open>An engine whose cumulative index holds one row; used to run the policies.\<close>

definition seen_once :: engine where
  "seen_once = (init_engine 2)\<lparr>cumulative_index :=
                  \<lparr>index_d = 2, index_metric = L2, index_rows = [[1, 0]]\<rparr>\<rparr>"

subsection \<open>ProfileCache: \<^verbatim>\<open>_get_or_create_user_profile\<close>\<close>

text \<open>
  The replies of the repository during one request, one field for each call the pipeline
  can make: the insert of the session row (the id of the first returned row, if any), the
  insert into \<^verbatim>\<open>user_profiles\<close> and the second insert of the session row after a foreign-key
  violation, the three reads of the profile, the insert of a baseline and the insert of
  the cumulative row.
\<close>

record replies =
  r_store_insert :: "string option db_reply"
  r_user_insert :: "bool db_reply"
  r_store_retry :: "string option db_reply"
  r_cumulative_select :: "cumulative_row option db_reply"
  r_baseline_select :: "real list option db_reply"
  r_get_user_profile :: "user_row option db_reply"
  r_baseline_insert :: "unit db_reply"
  r_cumulative_insert :: "bool db_reply"

text \<open>
  A cached profile is returned as it is. Otherwise the profile is read from the
  repository and cached; any exception on the way caches and returns the default profile.
\<close>

definition get_or_create_user_profile ::
  "replies \<Rightarrow> nat \<Rightarrow> engine \<Rightarrow> string \<Rightarrow> UserVectorProfile \<times> engine" where
  "get_or_create_user_profile rep now eng uid =
     (case user_profiles eng uid of
        Some p \<Rightarrow> (p, eng)
      | None \<Rightarrow>
          let user_uuid = generate_uuid_from_string uid;
              fallback = (\<lambda>e. let p = default_profile (vector_dimension e) uid now
                              in (p, put_profile uid p e));
              eng1 = send (SelectLatestVector user_uuid CUMULATIVE) eng
          in case r_cumulative_select rep of
               Raised msg \<Rightarrow> fallback eng1
             | Returned crow \<Rightarrow>
                 let (cumulative, count, updated) =
                       (case crow of
                          Some row \<Rightarrow> (cr_vector_data row,
                                       (case cr_vector_count row of None \<Rightarrow> 1 | Some n \<Rightarrow> n),
                                       cr_created_at row)
                        | None \<Rightarrow> (replicate (vector_dimension eng) 0, 0, now));
                     eng2 = send (SelectLatestVector user_uuid BASELINE) eng1
                 in case r_baseline_select rep of
                      Raised msg \<Rightarrow> fallback eng2
                    | Returned baseline \<Rightarrow>
                        let eng3 = send (GetUserProfile user_uuid) eng2
                        in case r_get_user_profile rep of
                             Raised msg \<Rightarrow> fallback eng3
                           | Returned urow \<Rightarrow>
                               let phase = (case urow of
                                              None \<Rightarrow> ''learning''
                                            | Some u \<Rightarrow> (case ur_current_phase u of
                                                          None \<Rightarrow> ''learning''
                                                        | Some ph \<Rightarrow> ph));
                                   p = \<lparr> user_id = uid,
                                         cumulative_vector = cumulative,
                                         baseline_vector = baseline,
                                         session_vectors = [],
                                         vector_count = count,
                                         last_updated = updated,
                                         learning_phase = phase \<rparr>
                               in (p, put_profile uid p eng3))"

subsection \<open>Storing a session vector: \<^verbatim>\<open>_store_session_vector\<close> and
  \<^verbatim>\<open>_store_session_vector_mobile\<close>\<close>

text \<open>
  In both variants the row is built before the insert; building it (and its metadata, from
  the extracted features or the raw logs) is taken to succeed.
\<close>

definition store_session_vector ::
  "string option db_reply \<Rightarrow> engine \<Rightarrow> string \<Rightarrow> string \<Rightarrow> real list \<Rightarrow> string option \<times> engine" where
  "store_session_vector reply eng uid sid v =
     (let row = \<lparr> vd_user_id = uid,
                  vd_session_id = sid,
                  vd_vector_data = v,
                  vd_vector_type = SESSION,
                  vd_confidence_score = 1.0,
                  vd_feature_source = ''mobile_behavioral_data'' \<rparr>;
          eng1 = send (InsertVector row) eng
      in case reply of
           Raised msg \<Rightarrow> (None, eng1)
         | Returned vid \<Rightarrow>
             (case faiss_add (session_index eng1) v of
                Inr idx \<Rightarrow> (vid, eng1\<lparr>session_index := idx\<rparr>)
              | Inl e \<Rightarrow> (None, eng1)))"

text \<open>The handler of the outer \<^verbatim>\<open>try\<close> of the mobile variant.\<close>

definition emergency_store :: "nat \<Rightarrow> engine \<Rightarrow> string \<Rightarrow> real list \<Rightarrow> string option \<times> engine" where
  "emergency_store now eng uid v =
     (case faiss_add (session_index eng) v of
        Inr idx \<Rightarrow> (Some (''emergency_'' @ uid @ ''_'' @ str_nat now), eng\<lparr>session_index := idx\<rparr>)
      | Inl e \<Rightarrow> (None, eng))"

text \<open>The handler "final fallback": index only, with a local id.\<close>

definition local_store ::
  "nat \<Rightarrow> engine \<Rightarrow> string \<Rightarrow> string \<Rightarrow> real list \<Rightarrow> string option \<times> engine" where
  "local_store now eng uid sid v =
     (case faiss_add (session_index eng) v of
        Inr idx \<Rightarrow> (Some (''local_'' @ uid @ ''_'' @ sid @ ''_'' @ str_nat now),
                    eng\<lparr>session_index := idx\<rparr>)
      | Inl e \<Rightarrow> emergency_store now eng uid v)"

definition store_session_vector_mobile ::
  "replies \<Rightarrow> nat \<Rightarrow> engine \<Rightarrow> string \<Rightarrow> string \<Rightarrow> real list \<Rightarrow> string option \<times> engine" where
  "store_session_vector_mobile rep now eng uid sid v =
     (let user_uuid = generate_uuid_from_string uid;
          row = \<lparr> vd_user_id = user_uuid,
                  vd_session_id = sid,
                  vd_vector_data = v,
                  vd_vector_type = SESSION,
                  vd_confidence_score = 0.8,
                  vd_feature_source = ''mobile_behavioral_data'' \<rparr>;
          eng1 = send (InsertVector row) eng;
          on_db_error = (\<lambda>msg.
            if py_in ''23503'' msg then
              let eng2 = send (InsertUserProfile user_uuid uid) eng1
              in case r_user_insert rep of
                   Raised m \<Rightarrow> local_store now eng2 uid sid v
                 | Returned has_data \<Rightarrow>
                     if has_data then
                       let eng3 = send (InsertVector row) eng2
                       in case r_store_retry rep of
                            Raised m \<Rightarrow> local_store now eng3 uid sid v
                          | Returned None \<Rightarrow> (None, eng3)
                          | Returned (Some vid) \<Rightarrow>
                              (case faiss_add (session_index eng3) v of
                                 Inr idx \<Rightarrow> (Some vid, eng3\<lparr>session_index := idx\<rparr>)
                               | Inl e \<Rightarrow> local_store now eng3 uid sid v)
                     else (None, eng2)
            else emergency_store now eng1 uid v)
      in case r_store_insert rep of
           Raised msg \<Rightarrow> on_db_error msg
         | Returned None \<Rightarrow> (None, eng1)
         | Returned (Some vid) \<Rightarrow>
             (case faiss_add (session_index eng1) v of
                Inr idx \<Rightarrow> (Some vid, eng1\<lparr>session_index := idx\<rparr>)
              | Inl e \<Rightarrow> on_db_error (str_of_error e)))"

subsection \<open>SessionPipeline: \<^verbatim>\<open>process_mobile_behavioral_data\<close> and
  \<^verbatim>\<open>process_behavioral_data\<close>\<close>

text \<open>
  The feature extractor (\<^verbatim>\<open>EnhancedBehavioralProcessor\<close>) is a parameter: it maps the logs
  to a vector or raises. Dispatch on the requested phase, shared by both pipelines; the
  profile is the cached object, so what the full-authentication policy does to it is
  stored back.
\<close>

definition analyze ::
  "replies \<Rightarrow> nat \<Rightarrow> engine \<Rightarrow> string \<Rightarrow> real list \<Rightarrow> UserVectorProfile \<Rightarrow> string
     \<Rightarrow> VectorAnalysisResult \<times> engine" where
  "analyze rep now eng uid sv p phase =
     (if phase = ''learning'' then (analyze_learning_phase eng uid sv p, eng)
      else if phase = ''gradual_risk'' then (analyze_gradual_phase eng uid sv p, eng)
      else case analyze_full_auth_phase (r_baseline_insert rep) now eng uid sv p of
             (result, p', eng') \<Rightarrow> (result, put_profile uid p' eng'))"

text \<open>
  The body of the \<^verbatim>\<open>try\<close>: \<open>Inl e\<close> when an exception reaches the handler. In this model
  that happens only before the engine is touched: in the extractor, or in the statistics
  of an empty vector.
\<close>

definition process_mobile_try ::
  "('l list \<Rightarrow> py_error + real list) \<Rightarrow> replies \<Rightarrow> nat \<Rightarrow> engine \<Rightarrow> string \<Rightarrow> string
     \<Rightarrow> 'l list \<Rightarrow> string \<Rightarrow> py_error + VectorAnalysisResult \<times> engine" where
  "process_mobile_try processor rep now eng uid sid logs phase =
     (if logs = [] then
        Inr (\<lparr> similarity_score = 0.0, confidence = 0.5, decision = ''learn'',
               risk_level = ''medium'', risk_factors = [''No behavioral data provided''],
               similar_vectors = [], vector_id = None, session_vector = None,
               vector_stats = None \<rparr>, eng)
      else case processor logs of
        Inl e \<Rightarrow> Inl e
      | Inr raw \<Rightarrow>
          let sv = normalize_vector raw
          in case calculate_vector_stats sv of
               Inl e \<Rightarrow> Inl e
             | Inr st \<Rightarrow>
                 let vector_sum = sum_list (map abs sv)
                 in if vector_sum = 0 then
                      Inr (\<lparr> similarity_score = 0.0, confidence = 0.3, decision = ''learn'',
                             risk_level = ''medium'',
                             risk_factors = [''Invalid behavioral vector generated''],
                             similar_vectors = [], vector_id = None, session_vector = Some sv,
                             vector_stats = Some st \<rparr>, eng)
                    else
                      case store_session_vector_mobile rep now eng uid sid sv of
                        (vid, eng1) \<Rightarrow>
                          (case get_or_create_user_profile rep now eng1 uid of
                             (p, eng2) \<Rightarrow>
                               (case analyze rep now eng2 uid sv p phase of
                                  (result, eng3) \<Rightarrow>
                                    let result' = result\<lparr>vector_id := vid,
                                                        session_vector := Some sv,
                                                        vector_stats := Some st\<rparr>
                                    in Inr (result',
                                            update_cumulative_vector (r_cumulative_insert rep) now
                                              eng3 uid sv (decision result')))))"

definition process_mobile_behavioral_data ::
  "('l list \<Rightarrow> py_error + real list) \<Rightarrow> replies \<Rightarrow> nat \<Rightarrow> engine \<Rightarrow> string \<Rightarrow> string
     \<Rightarrow> 'l list \<Rightarrow> string \<Rightarrow> VectorAnalysisResult \<times> engine" where
  "process_mobile_behavioral_data processor rep now eng uid sid logs phase =
     (case process_mobile_try processor rep now eng uid sid logs phase of
        Inr out \<Rightarrow> out
      | Inl e \<Rightarrow>
          (\<lparr> similarity_score = 0.0, confidence = 0.5, decision = ''learn'',
             risk_level = ''medium'', risk_factors = [''Processing error: '' @ str_of_error e],
             similar_vectors = [], vector_id = None, session_vector = None,
             vector_stats = None \<rparr>, eng))"

definition process_try ::
  "('l list \<Rightarrow> py_error + real list) \<Rightarrow> replies \<Rightarrow> nat \<Rightarrow> engine \<Rightarrow> string \<Rightarrow> string
     \<Rightarrow> 'l list \<Rightarrow> string \<Rightarrow> py_error + VectorAnalysisResult \<times> engine" where
  "process_try processor rep now eng uid sid logs phase =
     (case processor logs of
        Inl e \<Rightarrow> Inl e
      | Inr raw \<Rightarrow>
          let sv = normalize_vector raw
          in case store_session_vector (r_store_insert rep) eng uid sid sv of
               (vid, eng1) \<Rightarrow>
                 (case get_or_create_user_profile rep now eng1 uid of
                    (p, eng2) \<Rightarrow>
                      (case analyze rep now eng2 uid sv p phase of
                         (result, eng3) \<Rightarrow>
                           let result' = result\<lparr>vector_id := vid\<rparr>
                           in Inr (result',
                                   update_cumulative_vector (r_cumulative_insert rep) now
                                     eng3 uid sv (decision result')))))"

definition process_behavioral_data ::
  "('l list \<Rightarrow> py_error + real list) \<Rightarrow> replies \<Rightarrow> nat \<Rightarrow> engine \<Rightarrow> string \<Rightarrow> string
     \<Rightarrow> 'l list \<Rightarrow> string \<Rightarrow> VectorAnalysisResult \<times> engine" where
  "process_behavioral_data processor rep now eng uid sid logs phase =
     (case process_try processor rep now eng uid sid logs phase of
        Inr out \<Rightarrow> out
      | Inl e \<Rightarrow>
          (\<lparr> similarity_score = 0.0, confidence = 0.5, decision = ''learn'',
             risk_level = ''medium'', risk_factors = [''Processing error''],
             similar_vectors = [], vector_id = None, session_vector = None,
             vector_stats = None \<rparr>, eng))"

subsection \<open>\<^verbatim>\<open>end_session_update\<close>\<close>


text \<open>A repository that accepts every write and holds nothing about the user.\<close>

definition all_ok :: replies where
  "all_ok = \<lparr> r_store_insert = Returned (Some ''v1''), r_user_insert = Returned True,
       r_store_retry = Returned (Some ''v1''), r_cumulative_select = Returned None,
       r_baseline_select = Returned None, r_get_user_profile = Returned None,
       r_baseline_insert = Returned (), r_cumulative_insert = Returned True \<rparr>"

section \<open>Verified properties\<close>

subsection \<open>The internal user id\<close>

lemma length_md5_digest: "length (md5_digest m) = 16"
  by (simp add: md5_digest_def split: prod.splits)

lemma length_hex_bytes: "length (concat (map hex_byte bs)) = 2 * length bs"
  by (induction bs) (simp_all add: hex_byte_def)

lemma is_hex_char_hex_digit: "is_hex_char (hex_digit n)"
  unfolding is_hex_char_def hex_digit_def
  by (rule nth_mem) simp

lemma hex_bytes_all_hex: "list_all is_hex_char (concat (map hex_byte bs))"
  by (induction bs) (simp_all add: hex_byte_def is_hex_char_hex_digit)

lemma length_md5_hexdigest: "length (md5_hexdigest s) = 32"
  by (simp add: md5_hexdigest_def length_hex_bytes length_md5_digest)

lemma md5_hexdigest_all_hex: "list_all is_hex_char (md5_hexdigest s)"
  by (simp add: md5_hexdigest_def hex_bytes_all_hex)

lemma split_dash_nonempty: "split_dash cs \<noteq> []"
  by (induction cs) (auto split: list.splits)

lemma split_dash_group:
  "list_all is_hex_char a \<Longrightarrow> split_dash (a @ CHR ''-'' # rest) = a # split_dash rest"
  by (induction a) (auto simp: is_hex_char_def)

lemma split_dash_last: "list_all is_hex_char a \<Longrightarrow> split_dash a = [a]"
  by (induction a) (auto simp: is_hex_char_def)

lemma list_all_py_slice: "list_all P xs \<Longrightarrow> list_all P (py_slice i j xs)"
  unfolding py_slice_def list_all_iff
  by (auto dest: in_set_takeD in_set_dropD)

lemma canonical_uuid_of_hex:
  assumes len: "length h = 32" and hex: "list_all is_hex_char h"
  shows "canonical_uuid (py_slice 0 8 h @ ''-'' @ py_slice 8 12 h @ ''-'' @ py_slice 12 16 h
           @ ''-'' @ py_slice 16 20 h @ ''-'' @ py_slice 20 32 h)"
proof -
  note sl = list_all_py_slice [OF hex]
  have split: "split_dash (py_slice 0 8 h @ ''-'' @ py_slice 8 12 h @ ''-'' @ py_slice 12 16 h
           @ ''-'' @ py_slice 16 20 h @ ''-'' @ py_slice 20 32 h)
        = [py_slice 0 8 h, py_slice 8 12 h, py_slice 12 16 h, py_slice 16 20 h, py_slice 20 32 h]"
    by (simp add: split_dash_group split_dash_last sl)
  show ?thesis
    unfolding canonical_uuid_def split
    using len by (simp add: sl) (simp add: py_slice_def)
qed

lemma filter_dash_hex: "list_all is_hex_char a \<Longrightarrow> filter (\<lambda>c. c \<noteq> CHR ''-'') a = a"
  by (induction a) (auto simp: is_hex_char_def)

lemma py_slices_join:
  "length h = 32 \<Longrightarrow>
   py_slice 0 8 h @ py_slice 8 12 h @ py_slice 12 16 h @ py_slice 16 20 h @ py_slice 20 32 h = h"
proof -
  assume len: "length h = 32"
  have step: "\<And>i k. take k (drop i h) @ drop (i + k) h = drop i h"
    by (metis append_take_drop_id drop_drop add.commute)
  have "take 8 (drop 0 h) @ take 4 (drop 8 h) @ take 4 (drop 12 h) @ take 4 (drop 16 h)
          @ take 12 (drop 20 h) = h"
    using len step [of 8 0] step [of 4 8] step [of 4 12] step [of 4 16] by simp
  then show ?thesis by (simp add: py_slice_def)
qed

text \<open>
  Claim C9. The internal id depends on the external id only (the function reads nothing
  else, so equal inputs give equal outputs), and it is the 128-bit MD5 digest of the id
  written as 32 lower-case hexadecimal digits in groups of 8-4-4-4-12 separated by dashes.
\<close>

theorem generate_uuid_deterministic_canonical:
  "(s = t \<longrightarrow> generate_uuid_from_string s = generate_uuid_from_string t)
   \<and> canonical_uuid (generate_uuid_from_string s)
   \<and> filter (\<lambda>c. c \<noteq> CHR ''-'') (generate_uuid_from_string s) = md5_hexdigest s
   \<and> 8 * length (md5_digest (map of_char s)) = 128"
proof (intro conjI impI)
  assume "s = t"
  then show "generate_uuid_from_string s = generate_uuid_from_string t" by simp
next
  show "canonical_uuid (generate_uuid_from_string s)"
    unfolding generate_uuid_from_string_def Let_def
    by (rule canonical_uuid_of_hex [OF length_md5_hexdigest md5_hexdigest_all_hex])
next
  note sl = list_all_py_slice [OF md5_hexdigest_all_hex]
  show "filter (\<lambda>c. c \<noteq> CHR ''-'') (generate_uuid_from_string s) = md5_hexdigest s"
    unfolding generate_uuid_from_string_def Let_def
    by (simp add: filter_dash_hex sl py_slices_join [OF length_md5_hexdigest])
next
  show "8 * length (md5_digest (map of_char s)) = 128"
    by (simp add: length_md5_digest)
qed

theorem generate_uuid_deterministic_canonical_witness:
  "generate_uuid_from_string ''user_123'' = generate_uuid_from_string ''user_123''
   \<and> canonical_uuid (generate_uuid_from_string ''user_123'')
   \<and> generate_uuid_from_string ''user_123'' = ''7e7630b5-947f-69e5-041a-a3f3ff1a9848''"
proof -
  have v: "generate_uuid_from_string ''user_123'' = ''7e7630b5-947f-69e5-041a-a3f3ff1a9848''"
    by code_simp
  show ?thesis
    using generate_uuid_deterministic_canonical [of "''user_123''" "''user_123''"] v by simp
qed


subsection \<open>Cumulative update\<close>

text \<open>
  Claim C2. A cumulative update called with the decision \<^verbatim>\<open>block\<close> returns at once: the whole
  engine state, and so the profile's cumulative vector and vector count, is unchanged.
\<close>

theorem update_block_unchanged:
  "update_cumulative_vector reply now eng uid sv ''block'' = eng"
  by (simp add: update_cumulative_vector_def)

text \<open>
  Claim C10. For a user with no profile in the cache, a cumulative update changes nothing,
  whatever the decision: only cached profiles are ever updated.
\<close>

theorem update_uncached_unchanged:
  "user_profiles eng uid = None \<Longrightarrow> update_cumulative_vector reply now eng uid sv dec = eng"
  by (simp add: update_cumulative_vector_def)

theorem update_uncached_unchanged_witness:
  "user_profiles (init_engine 2) ''alice'' = None
   \<and> update_cumulative_vector (Returned True) 7 (init_engine 2) ''alice'' [1, 0] ''allow'' = init_engine 2"
  using update_uncached_unchanged [of "init_engine 2" "''alice''" "Returned True" 7 "[1, 0]" "''allow''"]
  by (simp add: init_engine_def)

lemma length_normalize_vector [simp]: "length (normalize_vector v) = length v"
  by (simp add: normalize_vector_def Let_def)


lemma length_blend:
  "blend p sv = Inr raw \<Longrightarrow> vector_count p \<noteq> 0 \<longrightarrow> length (cumulative_vector p) = length sv
     \<Longrightarrow> length raw = length sv"
  by (auto simp: blend_def np_add_def np_scale_def split: if_splits)

lemma send_simps [simp]:
  "user_profiles (send rq e) = user_profiles e"
  "cumulative_index (send rq e) = cumulative_index e"
  "baseline_index (send rq e) = baseline_index e"
  "session_index (send rq e) = session_index e"
  "vector_dimension (send rq e) = vector_dimension e"
  "db_requests (send rq e) = db_requests e @ [rq]"
  by (simp_all add: send_def)

lemma put_profile_simps [simp]:
  "user_profiles (put_profile uid q e) = (user_profiles e)(uid \<mapsto> q)"
  "cumulative_index (put_profile uid q e) = cumulative_index e"
  "baseline_index (put_profile uid q e) = baseline_index e"
  "session_index (put_profile uid q e) = session_index e"
  "vector_dimension (put_profile uid q e) = vector_dimension e"
  "db_requests (put_profile uid q e) = db_requests e"
  by (simp_all add: put_profile_def)







subsection \<open>Decision policies\<close>

lemma threshold_gradual_risk: "threshold ''gradual_risk'' = 0.6"
  by (simp add: threshold_def similarity_thresholds_def)


text \<open>
  Claim C4. In the gradual phase a profile with fewer than 3 folded sessions gives
  \<^verbatim>\<open>learn\<close> with similarity 0.8 and confidence 0.6. Otherwise, with \<open>s\<close> the cosine similarity
  of the session and the cumulative vector: \<open>s \<ge> 0.6\<close> gives allow and low risk,
  \<open>0.42 \<le> s < 0.6\<close> gives challenge and medium risk, \<open>s < 0.42\<close> gives block and high risk,
  and the confidence is \<open>min(0.8, count / 10)\<close>.
\<close>

theorem analyze_gradual_phase_policy:
  "(vector_count p < 3 \<longrightarrow>
      decision (analyze_gradual_phase eng uid sv p) = ''learn''
      \<and> similarity_score (analyze_gradual_phase eng uid sv p) = 0.8
      \<and> confidence (analyze_gradual_phase eng uid sv p) = 0.6)
   \<and> (\<not> vector_count p < 3 \<longrightarrow>
      similarity_score (analyze_gradual_phase eng uid sv p)
        = calculate_cosine_similarity sv (cumulative_vector p)
      \<and> confidence (analyze_gradual_phase eng uid sv p) = min 0.8 (real_of_int (vector_count p) / 10)
      \<and> (calculate_cosine_similarity sv (cumulative_vector p) \<ge> 0.6 \<longrightarrow>
            decision (analyze_gradual_phase eng uid sv p) = ''allow''
            \<and> risk_level (analyze_gradual_phase eng uid sv p) = ''low'')
      \<and> (0.42 \<le> calculate_cosine_similarity sv (cumulative_vector p)
           \<and> calculate_cosine_similarity sv (cumulative_vector p) < 0.6 \<longrightarrow>
            decision (analyze_gradual_phase eng uid sv p) = ''challenge''
            \<and> risk_level (analyze_gradual_phase eng uid sv p) = ''medium'')
      \<and> (calculate_cosine_similarity sv (cumulative_vector p) < 0.42 \<longrightarrow>
            decision (analyze_gradual_phase eng uid sv p) = ''block''
            \<and> risk_level (analyze_gradual_phase eng uid sv p) = ''high''))"
proof (cases "vector_count p < 3")
  case True
  then show ?thesis by (simp add: analyze_gradual_phase_def)
next
  case False
  define s where "s = calculate_cosine_similarity sv (cumulative_vector p)"
  consider (allow) "s \<ge> 0.6" | (challenge) "0.42 \<le> s" "s < 0.6" | (block) "s < 0.42"
    by linarith
  then show ?thesis
  proof cases
    case allow
    then show ?thesis using False
      by (simp add: analyze_gradual_phase_def threshold_gradual_risk s_def [symmetric])
  next
    case challenge
    then show ?thesis using False
      by (simp add: analyze_gradual_phase_def threshold_gradual_risk s_def [symmetric])
  next
    case block
    then show ?thesis using False
      by (simp add: analyze_gradual_phase_def threshold_gradual_risk s_def [symmetric])
  qed
qed

lemma cos_self_unit: "calculate_cosine_similarity [1, 0] [1, 0] = 1"
  by (simp add: calculate_cosine_similarity_def normalize_vector_def np_norm_def np_dot_def np_clip_def)

lemma sqrt_289: "sqrt 289 = 17"
  using real_sqrt_abs [of 17] by simp

lemma cos_8_15: "calculate_cosine_similarity [8, 15] [1, 0] = 8 / 17"
  by (simp add: calculate_cosine_similarity_def normalize_vector_def np_norm_def np_dot_def np_clip_def sqrt_289)

lemma cos_orth: "calculate_cosine_similarity [0, 1] [1, 0] = 0"
  by (simp add: calculate_cosine_similarity_def normalize_vector_def np_norm_def np_dot_def np_clip_def)

theorem analyze_gradual_phase_policy_witness:
  "decision (analyze_gradual_phase (init_engine 2) ''alice'' [1, 0]
       ((default_profile 2 ''alice'' 0)\<lparr>cumulative_vector := [1, 0], vector_count := 2\<rparr>)) = ''learn''
   \<and> decision (analyze_gradual_phase (init_engine 2) ''alice'' [1, 0]
       ((default_profile 2 ''alice'' 0)\<lparr>cumulative_vector := [1, 0], vector_count := 5\<rparr>)) = ''allow''
   \<and> confidence (analyze_gradual_phase (init_engine 2) ''alice'' [1, 0]
       ((default_profile 2 ''alice'' 0)\<lparr>cumulative_vector := [1, 0], vector_count := 5\<rparr>)) = 0.5
   \<and> decision (analyze_gradual_phase (init_engine 2) ''alice'' [8, 15]
       ((default_profile 2 ''alice'' 0)\<lparr>cumulative_vector := [1, 0], vector_count := 5\<rparr>)) = ''challenge''
   \<and> decision (analyze_gradual_phase (init_engine 2) ''alice'' [0, 1]
       ((default_profile 2 ''alice'' 0)\<lparr>cumulative_vector := [1, 0], vector_count := 5\<rparr>)) = ''block''"
  using
    analyze_gradual_phase_policy [of "(default_profile 2 ''alice'' 0)\<lparr>cumulative_vector := [1, 0], vector_count := 2\<rparr>"
       "init_engine 2" "''alice''" "[1, 0]"]
    analyze_gradual_phase_policy [of "(default_profile 2 ''alice'' 0)\<lparr>cumulative_vector := [1, 0], vector_count := 5\<rparr>"
       "init_engine 2" "''alice''" "[1, 0]"]
    analyze_gradual_phase_policy [of "(default_profile 2 ''alice'' 0)\<lparr>cumulative_vector := [1, 0], vector_count := 5\<rparr>"
       "init_engine 2" "''alice''" "[8, 15]"]
    analyze_gradual_phase_policy [of "(default_profile 2 ''alice'' 0)\<lparr>cumulative_vector := [1, 0], vector_count := 5\<rparr>"
       "init_engine 2" "''alice''" "[0, 1]"]
  by (simp add: default_profile_def cos_self_unit cos_8_15 cos_orth)

lemma faiss_search_hit_range:
  assumes "faiss_search idx q k = Inr hits" and "h \<in> set hits" and "snd h \<noteq> - 1"
  shows "0 \<le> snd h \<and> snd h < int (ntotal idx)"
proof -
  let ?scored = "zip (map (faiss_score (index_metric idx) q) (index_rows idx)) (map int [0..<ntotal idx])"
  let ?ranked = "case index_metric idx of L2 \<Rightarrow> sort_key fst ?scored
                   | IP \<Rightarrow> sort_key (\<lambda>h. - fst h) ?scored"
  have ranked: "set ?ranked = set ?scored"
    by (cases "index_metric idx") simp_all
  from assms(1) have hits: "hits = take k ?ranked @ replicate (k - length ?ranked) (0, - 1)"
    by (simp add: faiss_search_def Let_def split: if_splits)
  with assms(2,3) have "h \<in> set (take k ?ranked)"
    by auto
  then have "h \<in> set ?scored"
    using ranked by (auto dest: in_set_takeD)
  then have "snd h \<in> set (map int [0..<ntotal idx])"
    by (metis prod.collapse set_zip_rightD)
  then show ?thesis by auto
qed

lemma faiss_search_length:
  "faiss_search idx q k = Inr hits \<Longrightarrow> length hits = k"
  by (auto simp: faiss_search_def Let_def split: if_splits)

lemma find_similar_vectors_range:
  assumes "v \<in> set (find_similar_vectors eng uid q k)"
  shows "sv_type v = ''cumulative'' \<and> 0 \<le> sv_index v \<and> sv_index v < int (ntotal (cumulative_index eng))"
proof (cases "faiss_search (cumulative_index eng) (normalize_vector q) (min k (ntotal (cumulative_index eng)))")
  case (Inl e)
  have "find_similar_vectors eng uid q k = []"
    by (simp add: find_similar_vectors_def Inl)
  with assms show ?thesis by simp
next
  case (Inr hits)
  let ?found = "map (\<lambda>h. \<lparr>sv_similarity = fst h, sv_index = snd h, sv_type = ''cumulative''\<rparr>)
                       (filter (\<lambda>h. snd h \<noteq> - 1) hits)"
  have "find_similar_vectors eng uid q k
          = (if ntotal (cumulative_index eng) > 0 then take k ?found else [])"
    by (simp add: find_similar_vectors_def Inr)
  with assms have "v \<in> set (take k ?found)"
    by (simp split: if_splits)
  then have "v \<in> set ?found"
    by (rule in_set_takeD)
  then obtain h where h: "h \<in> set hits" "snd h \<noteq> - 1"
      and v: "v = \<lparr>sv_similarity = fst h, sv_index = snd h, sv_type = ''cumulative''\<rparr>"
    by auto
  from faiss_search_hit_range [OF Inr h] v show ?thesis by simp
qed

lemma find_similar_vectors_length: "length (find_similar_vectors eng uid q k) \<le> k"
  by (simp add: find_similar_vectors_def split: sum.splits)

text \<open>
  Claim C6 as stated fails on its risk factor: the code spells it with an ASCII hyphen, and
  the claim's sentence with an em dash (bytes E2 80 94 in UTF-8) is a different string.
\<close>

theorem learning_first_session_factor_counterexample:
  "vector_count (default_profile 2 ''alice'' 0) = 0
   \<and> risk_factors (analyze_learning_phase (init_engine 2) ''alice'' [1, 0] (default_profile 2 ''alice'' 0))
       \<noteq> [''First session '' @ [CHR 0xE2, CHR 0x80, CHR 0x94] @ '' no baseline for comparison'']"
  by (simp add: analyze_learning_phase_def default_profile_def)

text \<open>
  Claim C6, amended. In the learning phase a profile with count 0 gives \<^verbatim>\<open>learn\<close>, similarity
  0.0, confidence 0.2, low risk and the single risk factor
  \<^verbatim>\<open>First session - no baseline for comparison\<close> (with a hyphen). A profile with a positive
  count gives \<^verbatim>\<open>learn\<close>, the cosine similarity of the session and the cumulative vector,
  confidence \<open>min(0.8, count / 5)\<close>, and at most 3 similar vectors, each a row of the
  cumulative index.
\<close>

theorem analyze_learning_phase_policy:
  "(vector_count p = 0 \<longrightarrow>
      decision (analyze_learning_phase eng uid sv p) = ''learn''
      \<and> similarity_score (analyze_learning_phase eng uid sv p) = 0.0
      \<and> confidence (analyze_learning_phase eng uid sv p) = 0.2
      \<and> risk_level (analyze_learning_phase eng uid sv p) = ''low''
      \<and> risk_factors (analyze_learning_phase eng uid sv p)
          = [''First session - no baseline for comparison''])
   \<and> (vector_count p > 0 \<longrightarrow>
      decision (analyze_learning_phase eng uid sv p) = ''learn''
      \<and> similarity_score (analyze_learning_phase eng uid sv p)
          = calculate_cosine_similarity sv (cumulative_vector p)
      \<and> confidence (analyze_learning_phase eng uid sv p) = min 0.8 (real_of_int (vector_count p) / 5)
      \<and> length (similar_vectors (analyze_learning_phase eng uid sv p)) \<le> 3
      \<and> (\<forall>v \<in> set (similar_vectors (analyze_learning_phase eng uid sv p)).
            sv_type v = ''cumulative'' \<and> 0 \<le> sv_index v
            \<and> sv_index v < int (ntotal (cumulative_index eng))))"
proof (intro conjI impI)
  assume "vector_count p > 0"
  then have r: "similar_vectors (analyze_learning_phase eng uid sv p) = take 3 (find_similar_vectors eng uid sv 5)"
    by (simp add: analyze_learning_phase_def)
  show "\<forall>v \<in> set (similar_vectors (analyze_learning_phase eng uid sv p)).
            sv_type v = ''cumulative'' \<and> 0 \<le> sv_index v
            \<and> sv_index v < int (ntotal (cumulative_index eng))"
    unfolding r by (blast dest: in_set_takeD find_similar_vectors_range)
  show "length (similar_vectors (analyze_learning_phase eng uid sv p)) \<le> 3"
    unfolding r by simp
qed (simp_all add: analyze_learning_phase_def)

lemma find_similar_seen_once:
  "find_similar_vectors seen_once ''alice'' [1, 0] 5
     = [\<lparr>sv_similarity = 0, sv_index = 0, sv_type = ''cumulative''\<rparr>]"
  by (simp add: find_similar_vectors_def seen_once_def init_engine_def ntotal_def faiss_search_def
        normalize_vector_def np_norm_def faiss_score_def)

theorem analyze_learning_phase_policy_witness:
  "vector_count (default_profile 2 ''alice'' 0) = 0
   \<and> risk_factors (analyze_learning_phase (init_engine 2) ''alice'' [1, 0] (default_profile 2 ''alice'' 0))
       = [''First session - no baseline for comparison'']
   \<and> confidence (analyze_learning_phase (init_engine 2) ''alice'' [1, 0] (default_profile 2 ''alice'' 0)) = 0.2
   \<and> vector_count ((default_profile 2 ''alice'' 0)\<lparr>cumulative_vector := [1, 0], vector_count := 1\<rparr>) > 0
   \<and> similarity_score (analyze_learning_phase seen_once ''alice'' [1, 0]
        ((default_profile 2 ''alice'' 0)\<lparr>cumulative_vector := [1, 0], vector_count := 1\<rparr>)) = 1
   \<and> confidence (analyze_learning_phase seen_once ''alice'' [1, 0]
        ((default_profile 2 ''alice'' 0)\<lparr>cumulative_vector := [1, 0], vector_count := 1\<rparr>)) = 0.2
   \<and> similar_vectors (analyze_learning_phase seen_once ''alice'' [1, 0]
        ((default_profile 2 ''alice'' 0)\<lparr>cumulative_vector := [1, 0], vector_count := 1\<rparr>))
       = [\<lparr>sv_similarity = 0, sv_index = 0, sv_type = ''cumulative''\<rparr>]"
proof -
  have sim: "similar_vectors (analyze_learning_phase seen_once ''alice'' [1, 0]
        ((default_profile 2 ''alice'' 0)\<lparr>cumulative_vector := [1, 0], vector_count := 1\<rparr>))
       = [\<lparr>sv_similarity = 0, sv_index = 0, sv_type = ''cumulative''\<rparr>]"
    by (simp add: analyze_learning_phase_def find_similar_seen_once)
  show ?thesis
    using
      analyze_learning_phase_policy [of "default_profile 2 ''alice'' 0" "init_engine 2" "''alice''" "[1, 0]"]
      analyze_learning_phase_policy [of "(default_profile 2 ''alice'' 0)\<lparr>cumulative_vector := [1, 0], vector_count := 1\<rparr>"
         seen_once "''alice''" "[1, 0]"]
      sim
    by (simp add: default_profile_def cos_self_unit)
qed









subsection \<open>Phase transition\<close>









subsection \<open>The session pipeline\<close>

lemma sum_list_zero: "\<forall>x \<in> set v. f x = (0::real) \<Longrightarrow> sum_list (map f v) = 0"
  by (induction v) simp_all

lemma normalize_zero_vector:
  assumes "\<forall>x \<in> set raw. x = 0"
  shows "normalize_vector raw = raw"
proof -
  have "sum_list (map (\<lambda>x. x * x) raw) = 0"
    using assms by (intro sum_list_zero) simp
  then show ?thesis by (simp add: normalize_vector_def np_norm_def)
qed

lemma calculate_vector_stats_nonempty:
  "v \<noteq> [] \<Longrightarrow> \<exists>st. calculate_vector_stats v = Inr st"
  by (simp add: calculate_vector_stats_def Let_def)

text \<open>
  Every attempt to store a session record sends the insert of its row, so it shows in the
  request log.
\<close>

lemma emergency_store_log [simp]:
  "db_requests (snd (emergency_store now eng uid v)) = db_requests eng"
  by (simp add: emergency_store_def split: sum.splits)

lemma local_store_log [simp]:
  "db_requests (snd (local_store now eng uid sid v)) = db_requests eng"
  by (simp add: local_store_def split: sum.splits)

lemma store_attempt_logged:
  "\<exists>more. db_requests (snd (store_session_vector_mobile rep now eng uid sid v))
     = db_requests eng @
         InsertVector \<lparr> vd_user_id = generate_uuid_from_string uid,
                        vd_session_id = sid,
                        vd_vector_data = v,
                        vd_vector_type = SESSION,
                        vd_confidence_score = 0.8,
                        vd_feature_source = ''mobile_behavioral_data'' \<rparr> # more"
  by (simp add: store_session_vector_mobile_def Let_def
        split: db_reply.splits option.splits sum.splits)

text \<open>
  Claim C7 as stated fails on its last part. A request whose extracted vector is \<open>[0, 0]\<close>,
  on a fresh engine: the result is the short-circuit result and the engine is the fresh
  engine still, with no request sent to the repository and nothing in the session index.
\<close>

theorem zero_vector_not_stored_counterexample:
  "process_mobile_behavioral_data (\<lambda>logs. Inr [0, 0])
       all_ok
       7 (init_engine 2) ''alice'' ''s1'' [()] ''learning''
   = (\<lparr> similarity_score = 0, confidence = 0.3, decision = ''learn'', risk_level = ''medium'',
        risk_factors = [''Invalid behavioral vector generated''], similar_vectors = [],
        vector_id = None, session_vector = Some [0, 0],
        vector_stats = Some \<lparr> vs_length = 2, vs_non_zero_count = 0, vs_zero_count = 2,
                               vs_non_zero_percentage = 0, vs_mean = 0, vs_std = 0, vs_min = 0,
                               vs_max = 0, vs_is_meaningful = False \<rparr> \<rparr>,
      init_engine 2)
   \<and> db_requests (init_engine 2) = []
   \<and> index_rows (session_index (init_engine 2)) = []"
  by (simp add: process_mobile_behavioral_data_def process_mobile_try_def normalize_vector_def
        np_norm_def calculate_vector_stats_def np_mean_def init_engine_def all_ok_def)

text \<open>
  Claim C7, amended. For a request with logs whose extracted vector is non-empty and all
  zero, the mobile pipeline returns \<^verbatim>\<open>learn\<close> with confidence 0.3 and the risk factor
  \<^verbatim>\<open>Invalid behavioral vector generated\<close>, and it returns before the session record is
  stored: the engine state, repository log included, is unchanged.
\<close>

theorem zero_vector_short_circuit:
  assumes "logs \<noteq> []"
    and "processor logs = Inr raw"
    and "raw \<noteq> []"
    and "\<forall>x \<in> set raw. x = 0"
  shows "decision (fst (process_mobile_behavioral_data processor rep now eng uid sid logs phase)) = ''learn''
       \<and> confidence (fst (process_mobile_behavioral_data processor rep now eng uid sid logs phase)) = 0.3
       \<and> risk_factors (fst (process_mobile_behavioral_data processor rep now eng uid sid logs phase))
           = [''Invalid behavioral vector generated'']
       \<and> session_vector (fst (process_mobile_behavioral_data processor rep now eng uid sid logs phase))
           = Some raw
       \<and> snd (process_mobile_behavioral_data processor rep now eng uid sid logs phase) = eng"
proof -
  have n: "normalize_vector raw = raw" by (rule normalize_zero_vector [OF assms(4)])
  obtain st where st: "calculate_vector_stats raw = Inr st"
    using calculate_vector_stats_nonempty [OF assms(3)] by blast
  have z: "sum_list (map abs raw) = 0"
    using assms(4) by (intro sum_list_zero) simp
  show ?thesis
    using assms(1,2) n st z
    by (simp add: process_mobile_behavioral_data_def process_mobile_try_def)
qed

theorem zero_vector_short_circuit_witness:
  "[()] \<noteq> [] \<and> [0, 0 :: real] \<noteq> []
   \<and> decision (fst (process_mobile_behavioral_data (\<lambda>logs. Inr [0, 0])
       all_ok
       7 (init_engine 2) ''alice'' ''s1'' [()] ''full_auth'')) = ''learn''
   \<and> snd (process_mobile_behavioral_data (\<lambda>logs. Inr [0, 0])
       all_ok
       7 (init_engine 2) ''alice'' ''s1'' [()] ''full_auth'') = init_engine 2"
  using zero_vector_short_circuit [where logs = "[()]" and processor = "\<lambda>logs. Inr [0, 0]"
      and raw = "[0, 0]" and now = 7 and eng = "init_engine 2" and uid = "''alice''"
      and sid = "''s1''" and phase = "''full_auth''"
      and rep = all_ok]
  by simp

text \<open>
  Claim C8. Whenever an exception reaches the handler of either pipeline, the result is the
  fallback result, whose decision is \<^verbatim>\<open>learn\<close> and so is not \<^verbatim>\<open>allow\<close>.
\<close>

theorem error_fallback_never_allows:
  "(process_mobile_try processor rep now eng uid sid logs phase = Inl e \<longrightarrow>
      decision (fst (process_mobile_behavioral_data processor rep now eng uid sid logs phase)) = ''learn''
      \<and> decision (fst (process_mobile_behavioral_data processor rep now eng uid sid logs phase)) \<noteq> ''allow'')
   \<and> (process_try processor rep now eng uid sid logs phase = Inl e \<longrightarrow>
      decision (fst (process_behavioral_data processor rep now eng uid sid logs phase)) = ''learn''
      \<and> decision (fst (process_behavioral_data processor rep now eng uid sid logs phase)) \<noteq> ''allow'')"
  by (simp add: process_mobile_behavioral_data_def process_behavioral_data_def)

theorem error_fallback_never_allows_witness:
  "process_mobile_try (\<lambda>logs. Inl (ExternalError ''bad event'')) all_ok 7 (init_engine 2) ''alice'' ''s1'' [()] ''full_auth''
     = Inl (ExternalError ''bad event'')
   \<and> decision (fst (process_mobile_behavioral_data (\<lambda>logs. Inl (ExternalError ''bad event'')) all_ok 7
        (init_engine 2) ''alice'' ''s1'' [()] ''full_auth'')) = ''learn''
   \<and> process_try (\<lambda>logs. Inl (ExternalError ''bad event'')) all_ok 7 (init_engine 2) ''alice'' ''s1'' [()] ''full_auth''
     = Inl (ExternalError ''bad event'')
   \<and> decision (fst (process_behavioral_data (\<lambda>logs. Inl (ExternalError ''bad event'')) all_ok 7
        (init_engine 2) ''alice'' ''s1'' [()] ''full_auth'')) = ''learn''"
proof -
  have 1: "process_mobile_try (\<lambda>logs. Inl (ExternalError ''bad event'')) all_ok 7 (init_engine 2)
             ''alice'' ''s1'' [()] ''full_auth'' = Inl (ExternalError ''bad event'')"
    by (simp add: process_mobile_try_def)
  have 2: "process_try (\<lambda>logs. Inl (ExternalError ''bad event'')) all_ok 7 (init_engine 2)
             ''alice'' ''s1'' [()] ''full_auth'' = Inl (ExternalError ''bad event'')"
    by (simp add: process_try_def)
  show ?thesis
    using 1 2 error_fallback_never_allows [where processor = "\<lambda>logs. Inl (ExternalError ''bad event'')"
        and rep = all_ok and now = 7 and eng = "init_engine 2" and uid = "''alice''" and sid = "''s1''"
        and logs = "[()]" and phase = "''full_auth''" and e = "ExternalError ''bad event''"]
    by simp
qed

end
